theory Spec2Isabelle
  imports Main
begin

section \<open>Environment loading middleware (fx-core, core/middleware/envLoader.ts)\<close>

text \<open>
  The theory embeds \<^verbatim>\<open>loadSolutionContext\<close>, \<^verbatim>\<open>newSolutionContext\<close>,
  \<^verbatim>\<open>askTargetEnvironment\<close> and \<^verbatim>\<open>_getQuestionsForProvision\<close>. The functions are
  asynchronous but strictly sequential (every call is awaited), so each one is a function
  from its arguments to its result, the objects it mutates (\<^verbatim>\<open>ctx\<close>, \<^verbatim>\<open>inputs\<close>) and
  the list of calls it made to its collaborators, in order.
\<close>

subsection \<open>Data\<close>

text \<open>
  \<^verbatim>\<open>FxError\<close>: the only error this file constructs is \<^verbatim>\<open>NoProjectOpenedError()\<close>;
  every other error value is made by a collaborator (the registry, the UI) and is passed
  on unchanged. Such an error is identified by its name.
\<close>

datatype FxError = NoProjectOpenedError | ExternalError string

text \<open>
  \<^verbatim>\<open>Inputs\<close> is an open JavaScript object. A key that is absent reads as
  \<^verbatim>\<open>undefined\<close>; the values this file reads are strings.
\<close>

type_synonym Inputs = "string \<rightharpoonup> string"

record SolutionSettings =
  name :: string
  version :: string

record ProjectSettings =
  appName :: string
  projectId :: string
  solutionSettings :: SolutionSettings

type_synonym PluginConfig = "string \<rightharpoonup> string"
type_synonym SolutionConfig = "string \<rightharpoonup> PluginConfig"

text \<open>The value of a successful \<^verbatim>\<open>loadEnvProfile\<close>: \<^verbatim>\<open>envInfo.envName\<close>, \<^verbatim>\<open>envInfo.data\<close>.\<close>

record EnvInfo =
  envName :: string
  data :: SolutionConfig

text \<open>\<^verbatim>\<open>new LocalCrypto(projectId)\<close>: a provider is determined by the id it is keyed by.\<close>

datatype LocalCrypto = LocalCrypto string

text \<open>
  The solution context is built by an object literal with two spreads, so objects are
  dictionaries from property names to values, and a later property of the literal
  overwrites an earlier one of the same name. \<open>Handle\<close> is an opaque service object
  (a logger, a token provider, the UI), \<open>Obj\<close> a nested object.
\<close>

datatype Value =
    Str string
  | Settings ProjectSettings
  | Config SolutionConfig
  | Answers Inputs
  | Crypto LocalCrypto
  | Handle string
  | Obj "string \<rightharpoonup> Value"

type_synonym Object = "string \<rightharpoonup> Value"
type_synonym SolutionContext = Object

text \<open>
  \<^verbatim>\<open>Tools\<close>: the interface requires the property \<^verbatim>\<open>tokenProvider\<close>, itself an object
  of provider handles; \<open>handles\<close> holds the other own properties of the tools object.
  \<open>toolsProperties\<close> is the tools object as a dictionary, which \<^verbatim>\<open>...tools\<close> copies.
\<close>

record Tools =
  tokenProvider :: Object
  handles :: Object

definition toolsProperties :: "Tools \<Rightarrow> Object" where
  "toolsProperties tools = (handles tools)(''tokenProvider'' \<mapsto> Obj (tokenProvider tools))"

text \<open>
  The part of \<^verbatim>\<open>CoreHookContext\<close> this file touches. \<open>result\<close> is \<^verbatim>\<open>ctx.result\<close>,
  to which this file only ever assigns \<^verbatim>\<open>err(e)\<close>: \<open>Some e\<close> after such an assignment.
\<close>

record CoreHookContext =
  projectSettings :: "ProjectSettings option"
  projectIdMissing :: bool
  result :: "FxError option"

text \<open>
  Question tree. The classes \<^verbatim>\<open>QTreeNode\<close>, the question types and \<^verbatim>\<open>traverse\<close> belong
  to the API package and are not part of this file; the source uses a node's question
  (\<^verbatim>\<open>data\<close>, with its \<^verbatim>\<open>staticOptions\<close>), its \<^verbatim>\<open>condition\<close> and \<^verbatim>\<open>addChild\<close>.
\<close>

datatype Question =
    SingleSelect string "string list"
  | TextInput string

datatype Condition = Equals string

datatype QTreeNode = QTreeNode Question "Condition option" "QTreeNode list"

text \<open>
  The calls made to collaborators, as they appear in the source: the two registry
  operations with their arguments, and the log calls. A log message that interpolates a
  value is recorded by its fixed text (or by the error it reports).
\<close>

datatype Event =
    ListEnvProfiles string
  | LoadEnvProfile string string "LocalCrypto option"
  | LogError FxError
  | LogDebug string
  | LogInfo string

text \<open>
  \<^verbatim>\<open>environmentManager\<close> (module \<^verbatim>\<open>../environment\<close>) is a collaborator: its constant
  and its two operations are parameters of the model.
\<close>

record EnvironmentManager =
  defaultEnvName :: string
  listEnvProfiles :: "string \<Rightarrow> FxError + string list"
  loadEnvProfile :: "string \<Rightarrow> string \<Rightarrow> LocalCrypto option \<Rightarrow> FxError + EnvInfo"

text \<open>
  The prompt surface \<^verbatim>\<open>core.tools.ui\<close>: given a question and the answers so far, the
  operator's answer or a failure (cancellation, UI error).
\<close>

type_synonym UI = "Question \<Rightarrow> Inputs \<Rightarrow> FxError + string"

subsection \<open>JavaScript operators on optional strings\<close>

text \<open>\<^verbatim>\<open>!x\<close> is false exactly for a string that is present and not empty.\<close>

fun truthy :: "string option \<Rightarrow> bool" where
  "truthy None = False"
| "truthy (Some s) = (s \<noteq> [])"

text \<open>\<^verbatim>\<open>x ?? d\<close>: only \<^verbatim>\<open>undefined\<close> is replaced, the empty string is kept.\<close>

fun nullish :: "string option \<Rightarrow> string \<Rightarrow> string" where
  "nullish None d = d"
| "nullish (Some s) d = s"

text \<open>\<^verbatim>\<open>x || ""\<close>.\<close>

fun orEmpty :: "string option \<Rightarrow> string" where
  "orEmpty None = []"
| "orEmpty (Some s) = s"

subsection \<open>Question model\<close>

fun questionName :: "Question \<Rightarrow> string" where
  "questionName (SingleSelect n opts) = n"
| "questionName (TextInput n) = n"

fun staticOptionsOf :: "Question \<Rightarrow> string list" where
  "staticOptionsOf (SingleSelect n opts) = opts"
| "staticOptionsOf (TextInput n) = []"

text \<open>\<^verbatim>\<open>selectEnv.staticOptions = opts\<close>.\<close>

fun setStaticOptions :: "Question \<Rightarrow> string list \<Rightarrow> Question" where
  "setStaticOptions (SingleSelect n old) opts = SingleSelect n opts"
| "setStaticOptions (TextInput n) opts = TextInput n"

fun nodeData :: "QTreeNode \<Rightarrow> Question" where
  "nodeData (QTreeNode q c ch) = q"

fun nodeCondition :: "QTreeNode \<Rightarrow> Condition option" where
  "nodeCondition (QTreeNode q c ch) = c"

fun nodeChildren :: "QTreeNode \<Rightarrow> QTreeNode list" where
  "nodeChildren (QTreeNode q c ch) = ch"

text \<open>\<^verbatim>\<open>new QTreeNode(q)\<close>, \<^verbatim>\<open>node.condition = c\<close>, \<^verbatim>\<open>node.addChild(child)\<close>.\<close>

definition newQTreeNode :: "Question \<Rightarrow> QTreeNode" where
  "newQTreeNode q = QTreeNode q None []"

fun setCondition :: "QTreeNode \<Rightarrow> Condition \<Rightarrow> QTreeNode" where
  "setCondition (QTreeNode q c ch) c' = QTreeNode q (Some c') ch"

fun addChild :: "QTreeNode \<Rightarrow> QTreeNode \<Rightarrow> QTreeNode" where
  "addChild (QTreeNode q c ch) child = QTreeNode q c (ch @ [child])"

text \<open>
  Modelled from the spec: the constants \<^verbatim>\<open>QuestionSelectTargetEnvironment\<close> and
  \<^verbatim>\<open>QuestionNewTargetEnvironmentName\<close> of module \<^verbatim>\<open>../question\<close>, which is not under
  src. The spec (4.2, step 3) has the root offer a static option set and the child ask
  for a new environment name as free text. Answers are stored under the node's
  identifier (4.1); the identifiers are the two keys \<^verbatim>\<open>loadSolutionContext\<close> reads from
  \<^verbatim>\<open>inputs\<close> after the traversal.
\<close>

definition QuestionSelectTargetEnvironment :: Question where
  "QuestionSelectTargetEnvironment = SingleSelect ''targetEnvName'' []"

definition QuestionNewTargetEnvironmentName :: Question where
  "QuestionNewTargetEnvironmentName = TextInput ''newTargetEnvName''"

text \<open>
  Modelled from the spec: \<^verbatim>\<open>QTreeNode.trim\<close> (API package, not under src). The spec
  only says that a tree with no visible node resolves to nothing (4.1); every node of
  this model carries a prompt, so trimming removes nothing and returns the node.
\<close>

definition trim :: "QTreeNode \<Rightarrow> QTreeNode option" where
  "trim node = Some node"

text \<open>
  Modelled from the spec: the condition of a child, evaluated on the answer of its
  parent (4.1: "only show if parent answer equals literal X"); a child without a
  condition is always shown.
\<close>

fun visible :: "Condition option \<Rightarrow> string \<Rightarrow> bool" where
  "visible None answer = True"
| "visible (Some (Equals lit)) answer = (answer = lit)"

text \<open>
  Modelled from the spec: \<^verbatim>\<open>traverse\<close> (API package, not under src). Spec 4.1: the
  walk is depth-first and pre-order; it presents the node's prompt, stores the answer
  under the node's identifier, then walks the children whose condition holds of that
  answer; the first failure aborts the walk, and the answers collected so far stay in
  the in-memory map. The result is the \<^verbatim>\<open>Result<Void, FxError>\<close> (\<open>None\<close> for ok)
  together with the mutated \<^verbatim>\<open>inputs\<close>.
\<close>

fun traverse :: "UI \<Rightarrow> QTreeNode \<Rightarrow> Inputs \<Rightarrow> FxError option \<times> Inputs"
  and traverseChildren :: "UI \<Rightarrow> string \<Rightarrow> QTreeNode list \<Rightarrow> Inputs \<Rightarrow> FxError option \<times> Inputs"
where
  "traverse ui (QTreeNode q c ch) inputs =
     (case ui q inputs of
        Inl e \<Rightarrow> (Some e, inputs)
      | Inr answer \<Rightarrow> traverseChildren ui answer ch (inputs(questionName q \<mapsto> answer)))"
| "traverseChildren ui answer [] inputs = (None, inputs)"
| "traverseChildren ui answer (n # ns) inputs =
     (if visible (nodeCondition n) answer
      then (case traverse ui n inputs of
              (Some e, inputs') \<Rightarrow> (Some e, inputs')
            | (None, inputs') \<Rightarrow> traverseChildren ui answer ns inputs')
      else traverseChildren ui answer ns inputs)"

subsection \<open>The functions of envLoader.ts\<close>

text \<open>
  \<^verbatim>\<open>_getQuestionsForProvision\<close> (lines 153 to 175). The result comes with the registry
  calls made. The assignment to \<^verbatim>\<open>selectEnv.staticOptions\<close> writes into the shared
  constant; every call overwrites the field before reading it, so the node depends on
  this call's list only.
\<close>

definition getQuestionsForProvision ::
  "EnvironmentManager \<Rightarrow> Inputs \<Rightarrow> (FxError + QTreeNode option) \<times> Event list" where
  "getQuestionsForProvision em inputs =
     (case inputs ''projectPath'' of
        None \<Rightarrow> (Inl NoProjectOpenedError, [])
      | Some path \<Rightarrow>
          if path = [] then (Inl NoProjectOpenedError, [])
          else
            (case listEnvProfiles em path of
               Inl e \<Rightarrow> (Inl e, [ListEnvProfiles path])
             | Inr names \<Rightarrow>
                 (let selectEnv =
                        setStaticOptions QuestionSelectTargetEnvironment ([''+ new env''] @ names);
                      node = newQTreeNode selectEnv;
                      childNode =
                        setCondition (newQTreeNode QuestionNewTargetEnvironmentName)
                          (Equals ''+ new env'')
                  in (Inr (trim (addChild node childNode)), [ListEnvProfiles path]))))"

text \<open>
  \<^verbatim>\<open>askTargetEnvironment\<close> (lines 113 to 151) returns nothing: its outcome is the
  mutated \<^verbatim>\<open>ctx\<close> (the field \<^verbatim>\<open>result\<close>), the mutated \<^verbatim>\<open>inputs\<close> and the calls made.
  The second \<^verbatim>\<open>isErr\<close> test of the source (line 126) repeats the first and is never
  true there; both debug messages are logged.
\<close>

definition askTargetEnvironment ::
  "EnvironmentManager \<Rightarrow> UI \<Rightarrow> CoreHookContext \<Rightarrow> Inputs \<Rightarrow> CoreHookContext \<times> Inputs \<times> Event list" where
  "askTargetEnvironment em ui ctx inputs =
     (case getQuestionsForProvision em inputs of
        (Inl e, evs) \<Rightarrow> (ctx\<lparr>result := Some e\<rparr>, inputs, evs @ [LogError e])
      | (Inr node, evs) \<Rightarrow>
          (let evs' = evs @
                 [LogDebug ''[core] success to get questions for target environment.'',
                  LogDebug ''[core] success to get questions for target environment'']
           in case node of
                None \<Rightarrow> (ctx, inputs, evs')
              | Some n \<Rightarrow>
                  (case traverse ui n inputs of
                     (Some e, inputs') \<Rightarrow>
                       (ctx\<lparr>result := Some e\<rparr>, inputs', evs' @
                          [LogDebug ''[core] failed to run question model for target environment''])
                   | (None, inputs') \<Rightarrow>
                       (ctx, inputs', evs' @
                          [LogInfo ''[core] success to run question model for target environment'']))))"

text \<open>
  The object literal of lines 78 to 87 (and 101 to 109): the properties are written in
  the order of the literal, a spread writes every property of its object, and a later
  write replaces an earlier one of the same name.
\<close>

definition solutionContextOf ::
  "ProjectSettings \<Rightarrow> EnvInfo \<Rightarrow> Tools \<Rightarrow> Inputs \<Rightarrow> LocalCrypto \<Rightarrow> SolutionContext" where
  "solutionContextOf ps envInfo tools inputs cryptoProvider =
     ([''projectSettings'' \<mapsto> Settings ps,
       ''targetEnvName'' \<mapsto> Str (envName envInfo),
       ''config'' \<mapsto> Config (data envInfo),
       ''root'' \<mapsto> Str (orEmpty (inputs ''projectPath''))]
      ++ toolsProperties tools
      ++ tokenProvider tools)
     (''answers'' \<mapsto> Answers inputs,
      ''cryptoProvider'' \<mapsto> Crypto cryptoProvider)"

text \<open>
  Lines 64 to 89 of \<^verbatim>\<open>loadSolutionContext\<close>: the crypto provider, the registry load
  with the final target name, and the assembly of the context.
\<close>

definition loadAndAssemble ::
  "EnvironmentManager \<Rightarrow> CoreHookContext \<Rightarrow> Tools \<Rightarrow> Inputs \<Rightarrow> ProjectSettings \<Rightarrow> string \<Rightarrow> string
     \<Rightarrow> (FxError + SolutionContext) \<times> Event list" where
  "loadAndAssemble em ctx tools inputs ps path targetEnvName =
     (let cryptoProvider = LocalCrypto (projectId ps);
          cryptoArg = (if projectIdMissing ctx then None else Some cryptoProvider);
          call = LoadEnvProfile path targetEnvName cryptoArg
      in case loadEnvProfile em path targetEnvName cryptoArg of
           Inl e \<Rightarrow> (Inl e, [call])
         | Inr envInfo \<Rightarrow>
             (Inr (solutionContextOf ps envInfo tools inputs cryptoProvider), [call]))"

text \<open>
  \<^verbatim>\<open>loadSolutionContext\<close> (lines 43 to 90). The result comes with \<^verbatim>\<open>ctx\<close> and
  \<^verbatim>\<open>inputs\<close> as the call leaves them and with the calls made. \<^verbatim>\<open>askTargetEnvironment\<close>
  returns nothing, and the source does not read \<^verbatim>\<open>ctx.result\<close> after it. The path given
  to the registry is \<^verbatim>\<open>inputs.projectPath\<close>, which the guard of line 48 has shown to be
  a non-empty string and which the question walk does not write (lemma
  \<open>askTargetEnvironment_projectPath\<close> below).
\<close>

definition loadSolutionContext ::
  "EnvironmentManager \<Rightarrow> UI \<Rightarrow> CoreHookContext \<Rightarrow> Tools \<Rightarrow> Inputs
     \<Rightarrow> (FxError + SolutionContext) \<times> CoreHookContext \<times> Inputs \<times> Event list" where
  "loadSolutionContext em ui ctx tools inputs =
     (case projectSettings ctx of
        None \<Rightarrow> (Inl NoProjectOpenedError, ctx, inputs, [])
      | Some ps \<Rightarrow>
          (case inputs ''projectPath'' of
             None \<Rightarrow> (Inl NoProjectOpenedError, ctx, inputs, [])
           | Some path \<Rightarrow>
               if path = [] then (Inl NoProjectOpenedError, ctx, inputs, [])
               else
                 (case askTargetEnvironment em ui ctx inputs of
                    (ctx', inputs', evs) \<Rightarrow>
                      (let targetEnvName = nullish (inputs' ''targetEnvName'') (defaultEnvName em)
                       in if targetEnvName = ''+ new env''
                          then
                            (if \<not> truthy (inputs' ''newTargetEnvName'')
                             then (Inl NoProjectOpenedError, ctx', inputs', evs)
                             else
                               (case loadAndAssemble em ctx' tools inputs' ps path
                                       (orEmpty (inputs' ''newTargetEnvName'')) of
                                  (r, evs') \<Rightarrow> (r, ctx', inputs', evs @ evs')))
                          else
                            (case loadAndAssemble em ctx' tools inputs' ps path targetEnvName of
                               (r, evs') \<Rightarrow> (r, ctx', inputs', evs @ evs'))))))"


subsection \<open>Reading a call list\<close>

fun isRegistryCall :: "Event \<Rightarrow> bool" where
  "isRegistryCall (ListEnvProfiles p) = True"
| "isRegistryCall (LoadEnvProfile p n c) = True"
| "isRegistryCall _ = False"

fun isLoadCall :: "Event \<Rightarrow> bool" where
  "isLoadCall (LoadEnvProfile p n c) = True"
| "isLoadCall _ = False"

definition registryCalls :: "Event list \<Rightarrow> Event list" where
  "registryCalls evs = filter isRegistryCall evs"

definition loadCalls :: "Event list \<Rightarrow> Event list" where
  "loadCalls evs = filter isLoadCall evs"

subsection \<open>Reading a result\<close>

text \<open>The calls made by a run of \<^verbatim>\<open>loadSolutionContext\<close>.\<close>

definition callsOf :: "'a \<times> 'b \<times> 'c \<times> Event list \<Rightarrow> Event list" where
  "callsOf r = snd (snd (snd r))"

text \<open>The two-level tree that \<^verbatim>\<open>_getQuestionsForProvision\<close> builds for a list of names.\<close>

definition provisionTree :: "string list \<Rightarrow> QTreeNode" where
  "provisionTree names =
     QTreeNode (SingleSelect ''targetEnvName'' (''+ new env'' # names)) None
       [QTreeNode (TextInput ''newTargetEnvName'') (Some (Equals ''+ new env'')) []]"

text \<open>The property names written by the two spreads of the object literal.\<close>

definition spreadKeys :: "Tools \<Rightarrow> string set" where
  "spreadKeys tools = dom (toolsProperties tools) \<union> dom (tokenProvider tools)"

text \<open>
  The environment-specific properties of the literal (lines 79 to 82) with the values
  derived from the project settings, the loaded profile and the inputs.
\<close>

definition environmentFields :: "ProjectSettings \<Rightarrow> EnvInfo \<Rightarrow> Inputs \<Rightarrow> Object" where
  "environmentFields ps envInfo inputs =
     [''projectSettings'' \<mapsto> Settings ps,
      ''targetEnvName'' \<mapsto> Str (envName envInfo),
      ''config'' \<mapsto> Config (data envInfo),
      ''root'' \<mapsto> Str (orEmpty (inputs ''projectPath''))]"

text \<open>A property of the context of a result; a failure has no context.\<close>

fun contextField :: "FxError + SolutionContext \<Rightarrow> string \<Rightarrow> Value option" where
  "contextField (Inr sc) k = sc k"
| "contextField (Inl e) k = None"

subsection \<open>Example collaborators\<close>

text \<open>
  A project with a stable id, a registry with the environments dev and prod whose load
  succeeds for every name (and answers the upper-case name DEV with the profile dev),
  tools with one logger, one UI handle and one token provider, an operator who cancels
  every prompt, and one who answers the selection and the free-text prompt.
\<close>

definition demoSettings :: ProjectSettings where
  "demoSettings = \<lparr>appName = ''app'', projectId = ''id-1'',
     solutionSettings = \<lparr>name = ''fx-solution-azure'', version = ''1.0.0''\<rparr>\<rparr>"

definition demoCtx :: "bool \<Rightarrow> CoreHookContext" where
  "demoCtx missing = \<lparr>projectSettings = Some demoSettings, projectIdMissing = missing, result = None\<rparr>"

definition demoManager :: EnvironmentManager where
  "demoManager = \<lparr>defaultEnvName = ''default'',
     listEnvProfiles = (\<lambda>path. Inr [''dev'', ''prod'']),
     loadEnvProfile = (\<lambda>path n c. Inr \<lparr>envName = (if n = ''DEV'' then ''dev'' else n), data = Map.empty\<rparr>)\<rparr>"

definition demoTools :: Tools where
  "demoTools = \<lparr>tokenProvider = [''azureAccountProvider'' \<mapsto> Handle ''azure''],
     handles = [''logProvider'' \<mapsto> Handle ''log'', ''ui'' \<mapsto> Handle ''ui'']\<rparr>"

definition demoInputs :: Inputs where
  "demoInputs = [''projectPath'' \<mapsto> ''/proj'']"

definition cancelUI :: UI where
  "cancelUI q answers = Inl (ExternalError ''UserCancel'')"

fun answerUI :: "string \<Rightarrow> string \<Rightarrow> UI" where
  "answerUI env newName (SingleSelect n opts) answers = Inr env"
| "answerUI env newName (TextInput n) answers = Inr newName"

text \<open>The log calls with their texts.\<close>

definition debugGot1 :: Event where
  "debugGot1 = LogDebug ''[core] success to get questions for target environment.''"
definition debugGot2 :: Event where
  "debugGot2 = LogDebug ''[core] success to get questions for target environment''"
definition debugFailed :: Event where
  "debugFailed = LogDebug ''[core] failed to run question model for target environment''"
definition infoRun :: Event where
  "infoRun = LogInfo ''[core] success to run question model for target environment''"

text \<open>Tools whose object also carries a property named root.\<close>

definition collidingTools :: Tools where
  "collidingTools = demoTools\<lparr>handles := (handles demoTools)(''root'' \<mapsto> Handle ''toolRoot'')\<rparr>"

text \<open>Tools whose object also carries a property named targetEnvName.\<close>

definition namedTools :: Tools where
  "namedTools = demoTools\<lparr>handles := (handles demoTools)(''targetEnvName'' \<mapsto> Str ''tool-env'')\<rparr>"


section \<open>Properties\<close>

subsection \<open>The shape of every run\<close>

lemma getQuestions_guard:
  "\<not> truthy (inputs ''projectPath'') \<Longrightarrow> getQuestionsForProvision em inputs = (Inl NoProjectOpenedError, [])"
  by (cases "inputs ''projectPath''") (simp_all add: getQuestionsForProvision_def)

lemma getQuestions_cases:
  assumes "getQuestionsForProvision em inputs = (r, evs)"
  obtains
    (guard) "r = Inl NoProjectOpenedError" "evs = []" "\<not> truthy (inputs ''projectPath'')"
  | (listErr) path e where "inputs ''projectPath'' = Some path" "path \<noteq> []"
      "listEnvProfiles em path = Inl e" "r = Inl e" "evs = [ListEnvProfiles path]"
  | (tree) path names where "inputs ''projectPath'' = Some path" "path \<noteq> []"
      "listEnvProfiles em path = Inr names" "r = Inr (Some (provisionTree names))"
      "evs = [ListEnvProfiles path]"
  using assms
  by (auto simp: getQuestionsForProvision_def provisionTree_def QuestionSelectTargetEnvironment_def
      QuestionNewTargetEnvironmentName_def newQTreeNode_def trim_def Let_def
      split: option.splits if_splits sum.splits)

text \<open>
  The walk over the tree: the root prompt, then the prompt for the new name exactly when
  the root answer is the sentinel. A failure of either prompt ends the walk with the
  answers stored so far.
\<close>

lemma traverse_provisionTree:
  "traverse ui (provisionTree names) inputs =
     (case ui (SingleSelect ''targetEnvName'' (''+ new env'' # names)) inputs of
        Inl e \<Rightarrow> (Some e, inputs)
      | Inr answer \<Rightarrow>
          if answer = ''+ new env''
          then (case ui (TextInput ''newTargetEnvName'') (inputs(''targetEnvName'' \<mapsto> answer)) of
                  Inl e \<Rightarrow> (Some e, inputs(''targetEnvName'' \<mapsto> answer))
                | Inr newName \<Rightarrow>
                    (None, inputs(''targetEnvName'' \<mapsto> answer, ''newTargetEnvName'' \<mapsto> newName)))
          else (None, inputs(''targetEnvName'' \<mapsto> answer)))"
  by (simp add: provisionTree_def split: sum.splits)

lemma traverse_tree_projectPath:
  "traverse ui (provisionTree names) inputs = (r, inputs') \<Longrightarrow> inputs' ''projectPath'' = inputs ''projectPath''"
  by (auto simp: provisionTree_def split: sum.splits if_splits option.splits prod.splits)

lemma ask_cases:
  assumes "askTargetEnvironment em ui ctx inputs = (ctx', inputs', evs)"
  obtains
    (noQuestions) e qevs where "getQuestionsForProvision em inputs = (Inl e, qevs)"
      "ctx' = ctx\<lparr>result := Some e\<rparr>" "inputs' = inputs" "evs = qevs @ [LogError e]"
  | (walked) path names r logs where "inputs ''projectPath'' = Some path" "path \<noteq> []"
      "listEnvProfiles em path = Inr names"
      "traverse ui (provisionTree names) inputs = (r, inputs')"
      "ctx' = (case r of None \<Rightarrow> ctx | Some e \<Rightarrow> ctx\<lparr>result := Some e\<rparr>)"
      "evs = ListEnvProfiles path # logs" "loadCalls logs = []" "registryCalls logs = []"
proof (cases "getQuestionsForProvision em inputs")
  case (Pair q qevs)
  from Pair show ?thesis
  proof (cases rule: getQuestions_cases)
    case guard
    with Pair assms show ?thesis
      by (intro noQuestions[of NoProjectOpenedError "[]"]) (auto simp: askTargetEnvironment_def)
  next
    case (listErr path e)
    with Pair assms show ?thesis
      by (intro noQuestions[of e "[ListEnvProfiles path]"]) (auto simp: askTargetEnvironment_def)
  next
    case (tree path names)
    obtain r i where t: "traverse ui (provisionTree names) inputs = (r, i)"
      by (cases "traverse ui (provisionTree names) inputs") auto
    show ?thesis
    proof (cases r)
      case None
      with Pair assms tree t show ?thesis
        by (intro walked[of path names r]) (auto simp: askTargetEnvironment_def Let_def loadCalls_def registryCalls_def)
    next
      case (Some e)
      with Pair assms tree t show ?thesis
        by (intro walked[of path names r]) (auto simp: askTargetEnvironment_def Let_def loadCalls_def registryCalls_def)
    qed
  qed
qed

lemma getQuestions_no_load:
  "getQuestionsForProvision em inputs = (r, evs) \<Longrightarrow> loadCalls evs = []"
  by (erule getQuestions_cases) (auto simp: loadCalls_def)

lemma askTargetEnvironment_projectPath:
  "askTargetEnvironment em ui ctx inputs = (ctx', inputs', evs) \<Longrightarrow> inputs' ''projectPath'' = inputs ''projectPath''"
  by (erule ask_cases) (auto dest: traverse_tree_projectPath)

lemma ask_ctx:
  "askTargetEnvironment em ui ctx inputs = (ctx', inputs', evs) \<Longrightarrow>
     projectSettings ctx' = projectSettings ctx \<and> projectIdMissing ctx' = projectIdMissing ctx"
  by (erule ask_cases) (auto split: option.splits)

lemma ask_no_load:
  assumes "askTargetEnvironment em ui ctx inputs = (ctx', inputs', evs)"
  shows "loadCalls evs = []"
  using assms
proof (cases rule: ask_cases)
  case (noQuestions e)
  from getQuestions_no_load[OF noQuestions(1)] noQuestions(4) show ?thesis
    by (simp add: loadCalls_def)
next
  case (walked path names r logs)
  then show ?thesis by (simp add: loadCalls_def)
qed

lemma loadAndAssemble_eq:
  "loadAndAssemble em ctx tools inputs ps path n =
     ((case loadEnvProfile em path n (if projectIdMissing ctx then None else Some (LocalCrypto (projectId ps))) of
         Inl e \<Rightarrow> Inl e
       | Inr info \<Rightarrow> Inr (solutionContextOf ps info tools inputs (LocalCrypto (projectId ps)))),
      [LoadEnvProfile path n (if projectIdMissing ctx then None else Some (LocalCrypto (projectId ps)))])"
  by (simp add: loadAndAssemble_def Let_def split: sum.splits)

lemma lsc_cases:
  assumes "loadSolutionContext em ui ctx tools inputs = (r, ctx', inputs', evs)"
  obtains
    (guard) "\<not> truthy (inputs ''projectPath'') \<or> projectSettings ctx = None"
      "r = Inl NoProjectOpenedError" "ctx' = ctx" "inputs' = inputs" "evs = []"
  | (noName) ps path where "projectSettings ctx = Some ps" "inputs ''projectPath'' = Some path"
      "path \<noteq> []" "askTargetEnvironment em ui ctx inputs = (ctx', inputs', evs)"
      "nullish (inputs' ''targetEnvName'') (defaultEnvName em) = ''+ new env''"
      "\<not> truthy (inputs' ''newTargetEnvName'')" "r = Inl NoProjectOpenedError"
  | (load) ps path aevs n where "projectSettings ctx = Some ps" "inputs ''projectPath'' = Some path"
      "path \<noteq> []" "askTargetEnvironment em ui ctx inputs = (ctx', inputs', aevs)"
      "n = (if nullish (inputs' ''targetEnvName'') (defaultEnvName em) = ''+ new env''
            then orEmpty (inputs' ''newTargetEnvName'')
            else nullish (inputs' ''targetEnvName'') (defaultEnvName em))"
      "nullish (inputs' ''targetEnvName'') (defaultEnvName em) = ''+ new env''
         \<longrightarrow> truthy (inputs' ''newTargetEnvName'')"
      "(r, evs) = (case loadAndAssemble em ctx' tools inputs' ps path n of (r0, levs) \<Rightarrow> (r0, aevs @ levs))"
proof (cases "\<not> truthy (inputs ''projectPath'') \<or> projectSettings ctx = None")
  case True
  with assms show ?thesis
    by (intro guard) (auto simp: loadSolutionContext_def split: option.splits)
next
  case False
  then obtain ps path where p: "projectSettings ctx = Some ps" "inputs ''projectPath'' = Some path" "path \<noteq> []"
    by (cases "inputs ''projectPath''") auto
  obtain c1 i1 aevs where a: "askTargetEnvironment em ui ctx inputs = (c1, i1, aevs)"
    by (cases "askTargetEnvironment em ui ctx inputs") auto
  show ?thesis
  proof (cases "nullish (i1 ''targetEnvName'') (defaultEnvName em) = ''+ new env'' \<and> \<not> truthy (i1 ''newTargetEnvName'')")
    case True
    with assms p a show ?thesis
      by (intro noName[of ps path]) (auto simp: loadSolutionContext_def Let_def)
  next
    case False
    with assms p a show ?thesis
      by (intro load[of ps path aevs]) (auto simp: loadSolutionContext_def Let_def split: prod.splits if_splits)
  qed
qed

subsection \<open>The example runs\<close>

lemmas demo_defs = demoSettings_def demoCtx_def demoManager_def demoTools_def demoInputs_def
  cancelUI_def debugGot1_def debugGot2_def debugFailed_def infoRun_def
lemmas model_defs = loadSolutionContext_def askTargetEnvironment_def getQuestionsForProvision_def
  loadAndAssemble_def QuestionSelectTargetEnvironment_def QuestionNewTargetEnvironmentName_def
  newQTreeNode_def trim_def Let_def

lemma demo_ask_cancel:
  "askTargetEnvironment demoManager cancelUI (demoCtx b) demoInputs =
     ((demoCtx b)\<lparr>result := Some (ExternalError ''UserCancel'')\<rparr>, demoInputs,
      [ListEnvProfiles ''/proj'', debugGot1, debugGot2, debugFailed])"
  by (simp add: demo_defs model_defs)

lemma demo_run_cancel:
  "loadSolutionContext demoManager cancelUI (demoCtx False) demoTools demoInputs =
     (Inr (solutionContextOf demoSettings \<lparr>envName = ''default'', data = Map.empty\<rparr> demoTools
             demoInputs (LocalCrypto ''id-1'')),
      (demoCtx False)\<lparr>result := Some (ExternalError ''UserCancel'')\<rparr>,
      demoInputs,
      [ListEnvProfiles ''/proj'', debugGot1, debugGot2, debugFailed,
       LoadEnvProfile ''/proj'' ''default'' (Some (LocalCrypto ''id-1''))])"
  by (simp add: demo_defs model_defs)

lemma demo_ask_answer:
  "askTargetEnvironment demoManager (answerUI env newName) (demoCtx b) demoInputs =
     (demoCtx b,
      (if env = ''+ new env''
       then demoInputs(''targetEnvName'' \<mapsto> env, ''newTargetEnvName'' \<mapsto> newName)
       else demoInputs(''targetEnvName'' \<mapsto> env)),
      [ListEnvProfiles ''/proj'', debugGot1, debugGot2, infoRun])"
  by (simp add: demo_defs model_defs)

lemma lsc_load:
  assumes "loadSolutionContext em ui ctx tools inputs = (Inr sc, ctx', inputs', evs)"
  obtains ps path aevs n info where
    "projectSettings ctx = Some ps" "inputs ''projectPath'' = Some path" "path \<noteq> []"
    "askTargetEnvironment em ui ctx inputs = (ctx', inputs', aevs)"
    "n = (if nullish (inputs' ''targetEnvName'') (defaultEnvName em) = ''+ new env''
          then orEmpty (inputs' ''newTargetEnvName'')
          else nullish (inputs' ''targetEnvName'') (defaultEnvName em))"
    "loadEnvProfile em path n (if projectIdMissing ctx then None else Some (LocalCrypto (projectId ps))) = Inr info"
    "evs = aevs @ [LoadEnvProfile path n (if projectIdMissing ctx then None else Some (LocalCrypto (projectId ps)))]"
    "sc = solutionContextOf ps info tools inputs' (LocalCrypto (projectId ps))"
  using assms
proof (cases rule: lsc_cases)
  case (load ps path aevs n)
  from ask_ctx[OF load(4)] have m: "projectIdMissing ctx' = projectIdMissing ctx" by simp
  from load(7) m obtain info where
    "loadEnvProfile em path n (if projectIdMissing ctx then None else Some (LocalCrypto (projectId ps))) = Inr info"
    "sc = solutionContextOf ps info tools inputs' (LocalCrypto (projectId ps))"
    "evs = aevs @ [LoadEnvProfile path n (if projectIdMissing ctx then None else Some (LocalCrypto (projectId ps)))]"
    by (auto simp: loadAndAssemble_eq split: sum.splits)
  with load show ?thesis by (intro that[of ps path aevs n info]) auto
qed simp_all

lemma lsc_load_calls:
  assumes "loadSolutionContext em ui ctx tools inputs = (r, ctx', inputs', evs)"
    and "projectSettings ctx = Some ps"
  shows "loadCalls evs = [] \<or>
     (\<exists>p n. loadCalls evs = [LoadEnvProfile p n (if projectIdMissing ctx then None else Some (LocalCrypto (projectId ps)))])"
  using assms(1)
proof (cases rule: lsc_cases)
  case guard
  then show ?thesis by (simp add: loadCalls_def)
next
  case (noName ps' path)
  from ask_no_load[OF noName(4)] show ?thesis by simp
next
  case (load ps' path aevs n)
  from ask_ctx[OF load(4)] have m: "projectIdMissing ctx' = projectIdMissing ctx" by simp
  from load(1) assms(2) have [simp]: "ps' = ps" by simp
  from load(7) m ask_no_load[OF load(4)] show ?thesis
    by (auto simp: loadAndAssemble_eq loadCalls_def)
qed

lemma solutionContextOf_late:
  "solutionContextOf ps info tools inputs cp ''answers'' = Some (Answers inputs)"
  "solutionContextOf ps info tools inputs cp ''cryptoProvider'' = Some (Crypto cp)"
  by (simp_all add: solutionContextOf_def)

lemma solutionContextOf_env:
  assumes "k \<noteq> ''answers''" "k \<noteq> ''cryptoProvider''"
  shows "solutionContextOf ps info tools inputs cp k =
     (case tokenProvider tools k of
        Some v \<Rightarrow> Some v
      | None \<Rightarrow> (case toolsProperties tools k of Some v \<Rightarrow> Some v | None \<Rightarrow> environmentFields ps info inputs k))"
  using assms
  by (simp add: solutionContextOf_def environmentFields_def map_add_def split: option.splits)

lemma environmentFields_dom:
  "dom (environmentFields ps info inputs) = {''projectSettings'', ''targetEnvName'', ''config'', ''root''}"
  by (auto simp: environmentFields_def split: if_splits)

lemma demo_run_existing:
  "env \<noteq> ''+ new env'' \<Longrightarrow>
   loadSolutionContext demoManager (answerUI env x) (demoCtx b) tools demoInputs =
     (Inr (solutionContextOf demoSettings
             \<lparr>envName = (if env = ''DEV'' then ''dev'' else env), data = Map.empty\<rparr> tools
             (demoInputs(''targetEnvName'' \<mapsto> env)) (LocalCrypto ''id-1'')),
      demoCtx b,
      demoInputs(''targetEnvName'' \<mapsto> env),
      [ListEnvProfiles ''/proj'', debugGot1, debugGot2, infoRun,
       LoadEnvProfile ''/proj'' env (if b then None else Some (LocalCrypto ''id-1''))])"
  by (simp add: demo_defs model_defs)

lemma demo_run_new:
  "loadSolutionContext demoManager (answerUI ''+ new env'' ''staging'') (demoCtx False) demoTools demoInputs =
     (Inr (solutionContextOf demoSettings \<lparr>envName = ''staging'', data = Map.empty\<rparr> demoTools
             (demoInputs(''targetEnvName'' \<mapsto> ''+ new env'', ''newTargetEnvName'' \<mapsto> ''staging''))
             (LocalCrypto ''id-1'')),
      demoCtx False,
      demoInputs(''targetEnvName'' \<mapsto> ''+ new env'', ''newTargetEnvName'' \<mapsto> ''staging''),
      [ListEnvProfiles ''/proj'', debugGot1, debugGot2, infoRun,
       LoadEnvProfile ''/proj'' ''staging'' (Some (LocalCrypto ''id-1''))])"
  by (simp add: demo_defs model_defs)

lemma demo_run_unnamed:
  "loadSolutionContext demoManager (answerUI ''+ new env'' []) (demoCtx False) demoTools demoInputs =
     (Inl NoProjectOpenedError,
      demoCtx False,
      demoInputs(''targetEnvName'' \<mapsto> ''+ new env'', ''newTargetEnvName'' \<mapsto> []),
      [ListEnvProfiles ''/proj'', debugGot1, debugGot2, infoRun])"
  by (simp add: demo_defs model_defs)

lemma demo_tree_cancel:
  "traverse cancelUI (provisionTree names) inputs = (Some (ExternalError ''UserCancel''), inputs)"
  by (simp add: provisionTree_def cancelUI_def)

subsection \<open>Cancellation during the question walk\<close>

text \<open>
  Claim C1 says that a resolution whose root prompt fails returns that failure and makes
  no registry load. Here the operator cancels the root prompt: the walk returns the
  cancellation, \<^verbatim>\<open>askTargetEnvironment\<close> stores it in \<^verbatim>\<open>ctx.result\<close> and returns, and
  \<^verbatim>\<open>loadSolutionContext\<close> goes on: it loads the default environment and returns a
  context.
\<close>

theorem cancelled_walk_still_loads:
  "traverse cancelUI (provisionTree [''dev'', ''prod'']) demoInputs
     = (Some (ExternalError ''UserCancel''), demoInputs) \<and>
   fst (loadSolutionContext demoManager cancelUI (demoCtx False) demoTools demoInputs)
     = Inr (solutionContextOf demoSettings \<lparr>envName = ''default'', data = Map.empty\<rparr> demoTools
              demoInputs (LocalCrypto ''id-1'')) \<and>
   result (fst (snd (loadSolutionContext demoManager cancelUI (demoCtx False) demoTools demoInputs)))
     = Some (ExternalError ''UserCancel'') \<and>
   loadCalls (callsOf (loadSolutionContext demoManager cancelUI (demoCtx False) demoTools demoInputs))
     = [LoadEnvProfile ''/proj'' ''default'' (Some (LocalCrypto ''id-1''))]"
  by (simp add: demo_run_cancel demo_tree_cancel callsOf_def loadCalls_def
      debugGot1_def debugGot2_def debugFailed_def)

subsection \<open>A new environment without a name\<close>

text \<open>
  Claim C2 says that choosing "+ new env" with an empty or absent name fails with an
  error of its own, MissingNewEnvironmentName. Here the operator selects "+ new env"
  and leaves the name empty: the run fails without a registry load and without a
  default name, and the error is \<^verbatim>\<open>NoProjectOpenedError()\<close>, the very value returned
  when no project path is given, although the project is open.
\<close>

theorem unnamed_new_env_reports_no_project:
  "fst (loadSolutionContext demoManager (answerUI ''+ new env'' []) (demoCtx False) demoTools demoInputs)
     = Inl NoProjectOpenedError \<and>
   fst (loadSolutionContext demoManager (answerUI ''+ new env'' []) (demoCtx False) demoTools demoInputs)
     = fst (loadSolutionContext demoManager (answerUI ''+ new env'' []) (demoCtx False) demoTools Map.empty) \<and>
   loadCalls (callsOf (loadSolutionContext demoManager (answerUI ''+ new env'' []) (demoCtx False) demoTools demoInputs))
     = []"
  by (simp add: demo_run_unnamed callsOf_def loadCalls_def debugGot1_def debugGot2_def infoRun_def)
    (simp add: loadSolutionContext_def demoCtx_def)

subsection \<open>The no-project guard\<close>

text \<open>
  Claim C5: when \<^verbatim>\<open>inputs.projectPath\<close> is empty or absent, or the project settings are
  absent, \<^verbatim>\<open>loadSolutionContext\<close> fails with the NoProjectOpened error and calls
  neither \<^verbatim>\<open>listEnvProfiles\<close> nor \<^verbatim>\<open>loadEnvProfile\<close>; \<^verbatim>\<open>_getQuestionsForProvision\<close>
  has the same guard on the path, before its registry call.
\<close>

theorem no_project_guard:
  assumes "\<not> truthy (inputs ''projectPath'') \<or> projectSettings ctx = None"
  shows "fst (loadSolutionContext em ui ctx tools inputs) = Inl NoProjectOpenedError \<and>
    registryCalls (callsOf (loadSolutionContext em ui ctx tools inputs)) = [] \<and>
    (\<not> truthy (inputs ''projectPath'') \<longrightarrow>
       getQuestionsForProvision em inputs = (Inl NoProjectOpenedError, []))"
proof -
  obtain r c i evs where e: "loadSolutionContext em ui ctx tools inputs = (r, c, i, evs)"
    by (cases "loadSolutionContext em ui ctx tools inputs") auto
  from e assms have "r = Inl NoProjectOpenedError \<and> evs = []"
    by (cases rule: lsc_cases) auto
  with e show ?thesis
    by (simp add: callsOf_def registryCalls_def getQuestions_guard)
qed

text \<open>The guard at inputs without any property.\<close>

theorem no_project_guard_witness:
  "truthy ((Map.empty :: Inputs) ''projectPath'') = False \<and>
   fst (loadSolutionContext demoManager cancelUI (demoCtx False) demoTools Map.empty) = Inl NoProjectOpenedError \<and>
   registryCalls (callsOf (loadSolutionContext demoManager cancelUI (demoCtx False) demoTools Map.empty)) = [] \<and>
   getQuestionsForProvision demoManager Map.empty = (Inl NoProjectOpenedError, [])"
proof -
  have h: "\<not> truthy ((Map.empty :: Inputs) ''projectPath'') \<or> projectSettings (demoCtx False) = None"
    by simp
  from no_project_guard[OF h, of demoManager cancelUI demoTools] show ?thesis
    by simp
qed

subsection \<open>The crypto provider given to the registry\<close>

text \<open>
  Claim C6: in every run, each \<^verbatim>\<open>loadEnvProfile\<close> call receives no crypto provider when
  \<^verbatim>\<open>ctx.projectIdMissing\<close> is set, and otherwise the provider keyed by
  \<^verbatim>\<open>projectSettings.projectId\<close>; a run that succeeds has made exactly one such call.
\<close>

theorem load_call_crypto_argument:
  assumes "loadSolutionContext em ui ctx tools inputs = (r, ctx', inputs', evs)"
    and "projectSettings ctx = Some ps"
  shows "(\<forall>p n c. LoadEnvProfile p n c \<in> set evs \<longrightarrow>
            c = (if projectIdMissing ctx then None else Some (LocalCrypto (projectId ps)))) \<and>
         (\<forall>sc. r = Inr sc \<longrightarrow>
            (\<exists>p n. loadCalls evs =
               [LoadEnvProfile p n (if projectIdMissing ctx then None else Some (LocalCrypto (projectId ps)))]))"
proof (intro conjI allI impI)
  fix p n c
  assume "LoadEnvProfile p n c \<in> set evs"
  then have "LoadEnvProfile p n c \<in> set (loadCalls evs)"
    by (simp add: loadCalls_def)
  with lsc_load_calls[OF assms] show
    "c = (if projectIdMissing ctx then None else Some (LocalCrypto (projectId ps)))"
    by auto
next
  fix sc
  assume "r = Inr sc"
  with assms(1) have "loadSolutionContext em ui ctx tools inputs = (Inr sc, ctx', inputs', evs)"
    by simp
  then show "\<exists>p n. loadCalls evs =
      [LoadEnvProfile p n (if projectIdMissing ctx then None else Some (LocalCrypto (projectId ps)))]"
  proof (cases rule: lsc_load)
    case (1 ps' path aevs n info)
    with assms(2) ask_no_load[OF 1(4)] show ?thesis
      by (auto simp: loadCalls_def)
  qed
qed

text \<open>A legacy project (flag set) whose operator selects dev: the load receives nothing.\<close>

theorem load_call_crypto_argument_witness:
  "loadSolutionContext demoManager (answerUI ''dev'' []) (demoCtx True) demoTools demoInputs =
     (Inr (solutionContextOf demoSettings \<lparr>envName = ''dev'', data = Map.empty\<rparr> demoTools
             (demoInputs(''targetEnvName'' \<mapsto> ''dev'')) (LocalCrypto ''id-1'')),
      demoCtx True,
      demoInputs(''targetEnvName'' \<mapsto> ''dev''),
      [ListEnvProfiles ''/proj'', debugGot1, debugGot2, infoRun, LoadEnvProfile ''/proj'' ''dev'' None]) \<and>
   projectSettings (demoCtx True) = Some demoSettings \<and>
   LoadEnvProfile ''/proj'' ''dev'' None \<in>
     set [ListEnvProfiles ''/proj'', debugGot1, debugGot2, infoRun, LoadEnvProfile ''/proj'' ''dev'' None] \<and>
   (None :: LocalCrypto option) =
     (if projectIdMissing (demoCtx True) then None else Some (LocalCrypto (projectId demoSettings)))"
proof -
  have run: "loadSolutionContext demoManager (answerUI ''dev'' []) (demoCtx True) demoTools demoInputs =
     (Inr (solutionContextOf demoSettings \<lparr>envName = ''dev'', data = Map.empty\<rparr> demoTools
             (demoInputs(''targetEnvName'' \<mapsto> ''dev'')) (LocalCrypto ''id-1'')),
      demoCtx True,
      demoInputs(''targetEnvName'' \<mapsto> ''dev''),
      [ListEnvProfiles ''/proj'', debugGot1, debugGot2, infoRun, LoadEnvProfile ''/proj'' ''dev'' None])"
    by (simp add: demo_run_existing)
  have ps: "projectSettings (demoCtx True) = Some demoSettings"
    by (simp add: demoCtx_def)
  from load_call_crypto_argument[OF run ps] run ps show ?thesis
    by simp
qed

text \<open>
  Claim C10: for a legacy project (flag set) that resolves, the context's
  \<^verbatim>\<open>cryptoProvider\<close> is still the provider keyed by \<^verbatim>\<open>projectSettings.projectId\<close>; only
  the registry load call received the absent variant.
\<close>

theorem legacy_context_keeps_real_crypto:
  assumes "loadSolutionContext em ui ctx tools inputs = (Inr sc, ctx', inputs', evs)"
    and "projectIdMissing ctx"
  shows "\<exists>ps. projectSettings ctx = Some ps \<and>
           sc ''cryptoProvider'' = Some (Crypto (LocalCrypto (projectId ps))) \<and>
           (\<exists>p n. loadCalls evs = [LoadEnvProfile p n None])"
  using assms(1)
proof (cases rule: lsc_load)
  case (1 ps path aevs n info)
  with assms(2) ask_no_load[OF 1(4)] show ?thesis
    by (auto simp: loadCalls_def solutionContextOf_late)
qed

text \<open>The same legacy project, the operator selecting prod.\<close>

theorem legacy_context_keeps_real_crypto_witness:
  "projectIdMissing (demoCtx True) \<and>
   (\<exists>ps. projectSettings (demoCtx True) = Some ps \<and>
      solutionContextOf demoSettings \<lparr>envName = ''prod'', data = Map.empty\<rparr> demoTools
          (demoInputs(''targetEnvName'' \<mapsto> ''prod'')) (LocalCrypto ''id-1'') ''cryptoProvider''
        = Some (Crypto (LocalCrypto (projectId ps))) \<and>
      (\<exists>p n. loadCalls [ListEnvProfiles ''/proj'', debugGot1, debugGot2, infoRun,
                          LoadEnvProfile ''/proj'' ''prod'' None] = [LoadEnvProfile p n None]))"
proof -
  have run: "loadSolutionContext demoManager (answerUI ''prod'' []) (demoCtx True) demoTools demoInputs =
     (Inr (solutionContextOf demoSettings \<lparr>envName = ''prod'', data = Map.empty\<rparr> demoTools
             (demoInputs(''targetEnvName'' \<mapsto> ''prod'')) (LocalCrypto ''id-1'')),
      demoCtx True,
      demoInputs(''targetEnvName'' \<mapsto> ''prod''),
      [ListEnvProfiles ''/proj'', debugGot1, debugGot2, infoRun, LoadEnvProfile ''/proj'' ''prod'' None])"
    by (simp add: demo_run_existing)
  have legacy: "projectIdMissing (demoCtx True)"
    by (simp add: demoCtx_def)
  from legacy_context_keeps_real_crypto[OF run legacy] legacy show ?thesis
    by simp
qed

subsection \<open>The name in the context\<close>

text \<open>
  Claim C7 says that after every successful resolution the context's \<^verbatim>\<open>targetEnvName\<close>
  is the \<^verbatim>\<open>envName\<close> of the profile that the registry load returned. It fails for
  tools that carry a property \<^verbatim>\<open>targetEnvName\<close>: the literal writes the loaded name
  (line 80) before the spread of the tools (line 83), so the operator selects dev, the
  registry returns the profile dev, and the context names the tool's value.
\<close>

theorem tool_field_overwrites_name:
  "loadCalls (callsOf (loadSolutionContext demoManager (answerUI ''dev'' []) (demoCtx False)
      namedTools demoInputs)) = [LoadEnvProfile ''/proj'' ''dev'' (Some (LocalCrypto ''id-1''))] \<and>
   loadEnvProfile demoManager ''/proj'' ''dev'' (Some (LocalCrypto ''id-1''))
     = Inr \<lparr>envName = ''dev'', data = Map.empty\<rparr> \<and>
   contextField (fst (loadSolutionContext demoManager (answerUI ''dev'' []) (demoCtx False)
      namedTools demoInputs)) ''targetEnvName'' = Some (Str ''tool-env'') \<and>
   contextField (fst (loadSolutionContext demoManager (answerUI ''dev'' []) (demoCtx False)
      namedTools demoInputs)) ''targetEnvName'' \<noteq> Some (Str ''dev'')"
  by (simp add: demo_run_existing callsOf_def loadCalls_def debugGot1_def debugGot2_def
      infoRun_def)
    (simp add: solutionContextOf_def namedTools_def demoTools_def toolsProperties_def
      demoManager_def)

text \<open>
  Claim C7 as amended: after a successful resolution whose tools have no property named
  \<^verbatim>\<open>targetEnvName\<close>, neither in the tools object nor in its token provider, the
  context's \<^verbatim>\<open>targetEnvName\<close> is the \<^verbatim>\<open>envName\<close> of the profile that the registry load
  returned, not the candidate name computed from the inputs.
\<close>

theorem context_name_is_loaded_name:
  assumes "loadSolutionContext em ui ctx tools inputs = (Inr sc, ctx', inputs', evs)"
    and "''targetEnvName'' \<notin> spreadKeys tools"
  shows "\<exists>p n c info. loadCalls evs = [LoadEnvProfile p n c] \<and>
           loadEnvProfile em p n c = Inr info \<and>
           sc ''targetEnvName'' = Some (Str (envName info))"
  using assms(1)
proof (cases rule: lsc_load)
  case (1 ps path aevs n info)
  from assms(2) have "sc ''targetEnvName'' = Some (Str (envName info))"
    unfolding 1(8)
    by (subst solutionContextOf_env)
       (auto simp: spreadKeys_def environmentFields_def dom_def split: option.splits)
  with 1 ask_no_load[OF 1(4)] show ?thesis
    by (auto simp: loadCalls_def)
qed

lemma demoTools_spreadKeys:
  "spreadKeys demoTools = {''logProvider'', ''tokenProvider'', ''ui'', ''azureAccountProvider''}"
  by (auto simp: spreadKeys_def demoTools_def toolsProperties_def split: if_splits)

text \<open>
  The operator selects DEV, the registry answers with the profile dev: the context
  names dev.
\<close>

theorem context_name_is_loaded_name_witness:
  "''targetEnvName'' \<notin> spreadKeys demoTools \<and>
   (\<exists>p n c info.
      loadCalls [ListEnvProfiles ''/proj'', debugGot1, debugGot2, infoRun,
                 LoadEnvProfile ''/proj'' ''DEV'' (Some (LocalCrypto ''id-1''))] = [LoadEnvProfile p n c] \<and>
      loadEnvProfile demoManager p n c = Inr info \<and>
      solutionContextOf demoSettings \<lparr>envName = ''dev'', data = Map.empty\<rparr> demoTools
          (demoInputs(''targetEnvName'' \<mapsto> ''DEV'')) (LocalCrypto ''id-1'') ''targetEnvName''
        = Some (Str (envName info)))"
proof -
  have run: "loadSolutionContext demoManager (answerUI ''DEV'' []) (demoCtx False) demoTools demoInputs =
     (Inr (solutionContextOf demoSettings \<lparr>envName = ''dev'', data = Map.empty\<rparr> demoTools
             (demoInputs(''targetEnvName'' \<mapsto> ''DEV'')) (LocalCrypto ''id-1'')),
      demoCtx False,
      demoInputs(''targetEnvName'' \<mapsto> ''DEV''),
      [ListEnvProfiles ''/proj'', debugGot1, debugGot2, infoRun,
       LoadEnvProfile ''/proj'' ''DEV'' (Some (LocalCrypto ''id-1''))])"
    by (simp add: demo_run_existing)
  have free: "''targetEnvName'' \<notin> spreadKeys demoTools"
    by (simp add: demoTools_spreadKeys)
  from context_name_is_loaded_name[OF run free] free show ?thesis
    by simp
qed

subsection \<open>The final target name\<close>

text \<open>
  Claim C8: when the name read after the question walk, \<^verbatim>\<open>inputs.targetEnvName\<close> or
  else \<^verbatim>\<open>environmentManager.defaultEnvName\<close>, is not the sentinel "+ new env", the
  name given to the registry load is \<^verbatim>\<open>inputs.targetEnvName\<close> when that is set, and
  the default environment name when it is absent.
\<close>

theorem final_name_without_sentinel:
  assumes "projectSettings ctx = Some ps"
    and "inputs ''projectPath'' = Some path" and "path \<noteq> []"
    and "askTargetEnvironment em ui ctx inputs = (ctx1, inputs1, aevs)"
    and "nullish (inputs1 ''targetEnvName'') (defaultEnvName em) \<noteq> ''+ new env''"
  shows "\<exists>c. loadCalls (callsOf (loadSolutionContext em ui ctx tools inputs)) =
           [LoadEnvProfile path
              (case inputs1 ''targetEnvName'' of Some chosen \<Rightarrow> chosen | None \<Rightarrow> defaultEnvName em) c]"
proof -
  have n: "nullish (inputs1 ''targetEnvName'') (defaultEnvName em) =
      (case inputs1 ''targetEnvName'' of Some chosen \<Rightarrow> chosen | None \<Rightarrow> defaultEnvName em)"
    by (cases "inputs1 ''targetEnvName''") simp_all
  from assms have "callsOf (loadSolutionContext em ui ctx tools inputs) =
      aevs @ snd (loadAndAssemble em ctx1 tools inputs1 ps path
                    (nullish (inputs1 ''targetEnvName'') (defaultEnvName em)))"
    by (simp add: loadSolutionContext_def callsOf_def Let_def split: prod.splits)
  with ask_no_load[OF assms(4)] n show ?thesis
    by (simp add: loadAndAssemble_eq loadCalls_def)
qed

text \<open>
  An operator who selects prod, and one who cancels, so that no name is set and the
  default is taken.
\<close>

theorem final_name_without_sentinel_witness:
  "(\<exists>c. loadCalls (callsOf (loadSolutionContext demoManager (answerUI ''prod'' []) (demoCtx False) demoTools demoInputs))
      = [LoadEnvProfile ''/proj'' ''prod'' c]) \<and>
   (\<exists>c. loadCalls (callsOf (loadSolutionContext demoManager cancelUI (demoCtx False) demoTools demoInputs))
      = [LoadEnvProfile ''/proj'' ''default'' c])"
proof -
  have ps: "projectSettings (demoCtx False) = Some demoSettings"
    by (simp add: demoCtx_def)
  have path: "demoInputs ''projectPath'' = Some ''/proj''" "''/proj'' \<noteq> []"
    by (simp_all add: demoInputs_def)
  have ask1: "askTargetEnvironment demoManager (answerUI ''prod'' []) (demoCtx False) demoInputs =
      (demoCtx False, demoInputs(''targetEnvName'' \<mapsto> ''prod''),
       [ListEnvProfiles ''/proj'', debugGot1, debugGot2, infoRun])"
    by (simp add: demo_ask_answer)
  have sel1: "nullish ((demoInputs(''targetEnvName'' \<mapsto> ''prod'')) ''targetEnvName'')
      (defaultEnvName demoManager) \<noteq> ''+ new env''"
    by simp
  have sel2: "nullish (demoInputs ''targetEnvName'') (defaultEnvName demoManager) \<noteq> ''+ new env''"
    by (simp add: demoInputs_def demoManager_def)
  from final_name_without_sentinel[OF ps path ask1 sel1, of demoTools]
       final_name_without_sentinel[OF ps path demo_ask_cancel sel2, of demoTools]
  show ?thesis
    by (simp add: demoInputs_def demoManager_def)
qed



subsection \<open>The order of writes in the context\<close>

text \<open>
  Claim C3 says that the tool handles are spread first and that no environment field
  (\<^verbatim>\<open>projectSettings\<close>, \<^verbatim>\<open>targetEnvName\<close>, \<^verbatim>\<open>config\<close>, \<^verbatim>\<open>root\<close>) is overwritten by
  a tool field of the same name. It fails for tools that carry a property \<^verbatim>\<open>root\<close>:
  the context's \<^verbatim>\<open>root\<close> is then the tool's value, not the project path.
\<close>

theorem tool_field_overwrites_root:
  "contextField (fst (loadSolutionContext demoManager (answerUI ''dev'' []) (demoCtx False)
      collidingTools demoInputs)) ''root'' = Some (Handle ''toolRoot'') \<and>
   contextField (fst (loadSolutionContext demoManager (answerUI ''dev'' []) (demoCtx False)
      collidingTools demoInputs)) ''root'' \<noteq> Some (Str (orEmpty (demoInputs ''projectPath'')))"
  by (simp add: demo_run_existing solutionContextOf_def collidingTools_def demoTools_def toolsProperties_def)

text \<open>
  Claim C3 as amended: the environment fields are written first, then the tools object
  and its token provider are spread over them, then \<^verbatim>\<open>answers\<close> and \<^verbatim>\<open>cryptoProvider\<close>
  are written. So after a successful resolution each environment field holds its
  environment-derived value when neither spread has a property of that name, and the
  spread's value otherwise; \<^verbatim>\<open>answers\<close> and \<^verbatim>\<open>cryptoProvider\<close> are never overwritten.
\<close>

theorem context_write_order:
  assumes "loadSolutionContext em ui ctx tools inputs = (Inr sc, ctx', inputs', evs)"
  shows "\<exists>ps p n c info.
           projectSettings ctx = Some ps \<and>
           loadCalls evs = [LoadEnvProfile p n c] \<and>
           loadEnvProfile em p n c = Inr info \<and>
           (\<forall>k \<in> dom (environmentFields ps info inputs').
              sc k = (if k \<in> spreadKeys tools
                      then (toolsProperties tools ++ tokenProvider tools) k
                      else environmentFields ps info inputs' k)) \<and>
           sc ''answers'' = Some (Answers inputs') \<and>
           sc ''cryptoProvider'' = Some (Crypto (LocalCrypto (projectId ps)))"
  using assms
proof (cases rule: lsc_load)
  case (1 ps path aevs n info)
  have "sc k = (if k \<in> spreadKeys tools
                then (toolsProperties tools ++ tokenProvider tools) k
                else environmentFields ps info inputs' k)"
    if "k \<in> dom (environmentFields ps info inputs')" for k
  proof -
    from that have "k \<noteq> ''answers''" "k \<noteq> ''cryptoProvider''"
      by (auto simp: environmentFields_dom)
    then show ?thesis
      unfolding 1(8)
      by (subst solutionContextOf_env)
         (auto simp: spreadKeys_def map_add_def dom_def split: option.splits)
  qed
  with 1 ask_no_load[OF 1(4)] show ?thesis
    by (auto simp: loadCalls_def solutionContextOf_late)
qed

text \<open>The run in which the operator selects dev, with tools that keep to their interface.\<close>

theorem context_write_order_witness:
  "\<exists>ps p n c info.
     projectSettings (demoCtx False) = Some ps \<and>
     loadCalls [ListEnvProfiles ''/proj'', debugGot1, debugGot2, infoRun,
                LoadEnvProfile ''/proj'' ''dev'' (Some (LocalCrypto ''id-1''))] = [LoadEnvProfile p n c] \<and>
     loadEnvProfile demoManager p n c = Inr info \<and>
     (\<forall>k \<in> dom (environmentFields ps info (demoInputs(''targetEnvName'' \<mapsto> ''dev''))).
        solutionContextOf demoSettings \<lparr>envName = ''dev'', data = Map.empty\<rparr> demoTools
            (demoInputs(''targetEnvName'' \<mapsto> ''dev'')) (LocalCrypto ''id-1'') k
          = (if k \<in> spreadKeys demoTools
             then (toolsProperties demoTools ++ tokenProvider demoTools) k
             else environmentFields ps info (demoInputs(''targetEnvName'' \<mapsto> ''dev'')) k)) \<and>
     solutionContextOf demoSettings \<lparr>envName = ''dev'', data = Map.empty\<rparr> demoTools
         (demoInputs(''targetEnvName'' \<mapsto> ''dev'')) (LocalCrypto ''id-1'') ''answers''
       = Some (Answers (demoInputs(''targetEnvName'' \<mapsto> ''dev''))) \<and>
     solutionContextOf demoSettings \<lparr>envName = ''dev'', data = Map.empty\<rparr> demoTools
         (demoInputs(''targetEnvName'' \<mapsto> ''dev'')) (LocalCrypto ''id-1'') ''cryptoProvider''
       = Some (Crypto (LocalCrypto (projectId ps)))"
proof -
  have run: "loadSolutionContext demoManager (answerUI ''dev'' []) (demoCtx False) demoTools demoInputs =
     (Inr (solutionContextOf demoSettings \<lparr>envName = ''dev'', data = Map.empty\<rparr> demoTools
             (demoInputs(''targetEnvName'' \<mapsto> ''dev'')) (LocalCrypto ''id-1'')),
      demoCtx False,
      demoInputs(''targetEnvName'' \<mapsto> ''dev''),
      [ListEnvProfiles ''/proj'', debugGot1, debugGot2, infoRun,
       LoadEnvProfile ''/proj'' ''dev'' (Some (LocalCrypto ''id-1''))])"
    by (simp add: demo_run_existing)
  show ?thesis
    by (rule context_write_order[OF run])
qed

subsection \<open>The question tree\<close>

text \<open>
  Claim C4: for every list L of names that the registry returns, the root node built
  by \<^verbatim>\<open>_getQuestionsForProvision\<close> has the static options "+ new env" followed by L,
  and one child, the prompt for the new name, which is visible exactly when the root
  answer equals "+ new env".
\<close>

theorem provision_questions:
  assumes "inputs ''projectPath'' = Some path" and "path \<noteq> []"
    and "listEnvProfiles em path = Inr L"
  shows "\<exists>root child.
           fst (getQuestionsForProvision em inputs) = Inr (Some root) \<and>
           staticOptionsOf (nodeData root) = [''+ new env''] @ L \<and>
           nodeChildren root = [child] \<and>
           nodeData child = QuestionNewTargetEnvironmentName \<and>
           (\<forall>answer. visible (nodeCondition child) answer \<longleftrightarrow> answer = ''+ new env'')"
  using assms
  by (simp add: getQuestionsForProvision_def QuestionSelectTargetEnvironment_def
      newQTreeNode_def trim_def Let_def)

text \<open>The tree for the registry with dev and prod.\<close>

theorem provision_questions_witness:
  "\<exists>root child.
     fst (getQuestionsForProvision demoManager demoInputs) = Inr (Some root) \<and>
     staticOptionsOf (nodeData root) = [''+ new env'', ''dev'', ''prod''] \<and>
     nodeChildren root = [child] \<and>
     visible (nodeCondition child) ''+ new env'' \<and> \<not> visible (nodeCondition child) ''dev''"
proof -
  have p: "demoInputs ''projectPath'' = Some ''/proj''" "''/proj'' \<noteq> []"
    by (simp_all add: demoInputs_def)
  have l: "listEnvProfiles demoManager ''/proj'' = Inr [''dev'', ''prod'']"
    by (simp add: demoManager_def)
  from provision_questions[of demoInputs "''/proj''" demoManager "[''dev'', ''prod'']", OF p l]
  obtain root child where
    "fst (getQuestionsForProvision demoManager demoInputs) = Inr (Some root)"
    "staticOptionsOf (nodeData root) = [''+ new env''] @ [''dev'', ''prod'']"
    "nodeChildren root = [child]"
    "\<forall>answer. visible (nodeCondition child) answer \<longleftrightarrow> answer = ''+ new env''"
    by blast
  then show ?thesis
    by (intro exI[of _ root] exI[of _ child]) simp
qed

subsection \<open>Synthesis of a new context\<close>




end
